theory Spec2Isabelle
  imports Complex_Main "HOL-Library.Word"
begin

section \<open>The ENVI header writer of DEM.h\<close>

text \<open>
  The development follows \<^verbatim>\<open>src/graveyard/DEM.h\<close>: the template
  \<^verbatim>\<open>vw_to_envi_channel_type\<close> and the function template
  \<^verbatim>\<open>write_ENVI_header\<close>. The Vision Workbench types the header only uses
  (image view, bounding box, georeference) appear through the operations the function
  calls on them. The C library calls (\<^verbatim>\<open>fopen\<close>, \<^verbatim>\<open>fprintf\<close>,
  \<^verbatim>\<open>fclose\<close>) and the two standard algorithms
  (\<^verbatim>\<open>std::min_element\<close>, \<^verbatim>\<open>std::max_element\<close>) are modelled as their
  standards describe them, including the cases in which they leave the behaviour
  undefined.
\<close>

subsection \<open>Channel types and their ENVI codes\<close>

text \<open>
  The channel types of \<^verbatim>\<open>vw/Core/FundamentalTypes.h\<close>; any other C++ type a
  pixel may have as its channel is \<open>other_type\<close> with its name.
\<close>

datatype ChannelT =
    vw_int8 | vw_uint8 | vw_int16 | vw_uint16 | vw_int32 | vw_uint32
  | vw_int64 | vw_uint64 | vw_float32 | vw_float64 | other_type string

text \<open>
  DEM.h, lines 29 to 37. The primary template is an empty struct: it has no member
  \<^verbatim>\<open>value\<close>, so \<^verbatim>\<open>vw_to_envi_channel_type<T>::value()\<close> names nothing
  unless \<^verbatim>\<open>T\<close> is one of the seven specialisations. \<open>None\<close> is that case.
\<close>

fun vw_to_envi_channel_type :: "ChannelT \<Rightarrow> int option" where
  "vw_to_envi_channel_type vw_uint8 = Some 1"
| "vw_to_envi_channel_type vw_int16 = Some 2"
| "vw_to_envi_channel_type vw_int32 = Some 3"
| "vw_to_envi_channel_type vw_float32 = Some 4"
| "vw_to_envi_channel_type vw_float64 = Some 5"
| "vw_to_envi_channel_type vw_uint16 = Some 12"
| "vw_to_envi_channel_type vw_uint32 = Some 13"
| "vw_to_envi_channel_type _ = None"

subsection \<open>The conversions of fprintf\<close>

text \<open>
  \<^verbatim>\<open>%d\<close> prints a signed decimal integer. \<^verbatim>\<open>%f\<close> prints a
  \<^verbatim>\<open>double\<close> in fixed notation with six digits after the point, the exact value
  rounded to nearest with ties to even (the default rounding mode), and a minus sign for
  a negative value also when it rounds to zero; an infinity prints as
  \<^verbatim>\<open>inf\<close> and a NaN as \<^verbatim>\<open>nan\<close>, each after a minus sign when its sign
  bit is set. \<^verbatim>\<open>%s\<close> prints a C string, which ends at its first NUL.
\<close>

definition digit_char :: "nat \<Rightarrow> char" where
  "digit_char d = ''0123456789'' ! d"

function dec_digits :: "nat \<Rightarrow> string" where
  "dec_digits n =
     (if n < 10 then [digit_char n]
      else dec_digits (n div 10) @ [digit_char (n mod 10)])"
  by pat_completeness auto
termination
  by (relation "measure id") auto

declare dec_digits.simps [simp del]

definition fmt_d :: "int \<Rightarrow> string" where
  "fmt_d i = (if i < 0 then ''-'' @ dec_digits (nat (- i)) else dec_digits (nat i))"

definition round_half_even :: "real \<Rightarrow> int" where
  "round_half_even v =
     (let q = \<lfloor>v\<rfloor>; r = v - of_int q
      in if r < 1 / 2 then q
         else if 1 / 2 < r then q + 1
         else if even q then q else q + 1)"

definition fmt_fixed :: "real \<Rightarrow> string" where
  "fmt_fixed v =
     (let n = nat (round_half_even (\<bar>v\<bar> * 1000000));
          frac = dec_digits (n mod 1000000)
      in (if v < 0 then ''-'' else '''') @ dec_digits (n div 1000000) @ ''.'' @
         replicate (6 - length frac) (CHR ''0'') @ frac)"

text \<open>
  A \<^verbatim>\<open>double\<close>: a finite value, held as the real number it denotes (\<open>Finite 0\<close>
  is +0.0), the negative zero, an infinity, or a NaN with its sign bit. The function does
  no arithmetic on its \<^verbatim>\<open>double\<close> values: it compares, converts and prints them.
  \<open>dless\<close> and \<open>dle\<close> are the comparisons \<^verbatim>\<open><\<close> and \<^verbatim>\<open><=\<close>:
  false as soon as one side is a NaN, and the two zeros are equal. A sample of an integer
  channel type converts to a finite value.
\<close>

datatype double = Finite real | Minus_zero | Plus_infinity | Minus_infinity | NaN bool

fun is_nan :: "double \<Rightarrow> bool" where
  "is_nan (NaN sign) = True"
| "is_nan _ = False"

fun rank :: "double \<Rightarrow> int" where
  "rank Minus_infinity = - 1"
| "rank Plus_infinity = 1"
| "rank _ = 0"

fun magnitude :: "double \<Rightarrow> real" where
  "magnitude (Finite v) = v"
| "magnitude _ = 0"

definition dless :: "double \<Rightarrow> double \<Rightarrow> bool" where
  "dless a b =
     (\<not> is_nan a \<and> \<not> is_nan b \<and>
      (rank a < rank b \<or> (rank a = rank b \<and> magnitude a < magnitude b)))"

definition dle :: "double \<Rightarrow> double \<Rightarrow> bool" where
  "dle a b =
     (\<not> is_nan a \<and> \<not> is_nan b \<and>
      (rank a < rank b \<or> (rank a = rank b \<and> magnitude a \<le> magnitude b)))"

fun fmt_f :: "double \<Rightarrow> string" where
  "fmt_f (Finite v) = fmt_fixed v"
| "fmt_f Minus_zero = ''-0.000000''"
| "fmt_f Plus_infinity = ''inf''"
| "fmt_f Minus_infinity = ''-inf''"
| "fmt_f (NaN sign) = (if sign then ''-nan'' else ''nan'')"

definition c_str :: "string \<Rightarrow> string" where
  "c_str s = takeWhile (\<lambda>c. c \<noteq> CHR 0x00) s"

subsection \<open>Image view, bounding box and georeference\<close>

text \<open>
  \<^verbatim>\<open>vw::ImageViewBase<ViewT>\<close> as the function uses it: \<^verbatim>\<open>cols()\<close>,
  \<^verbatim>\<open>rows()\<close>, \<^verbatim>\<open>planes()\<close> and the pixel iterator from
  \<^verbatim>\<open>begin()\<close> to \<^verbatim>\<open>end()\<close>, which visits every column of every row of
  every plane. A pixel is held by the value its conversion to \<^verbatim>\<open>double\<close> gives;
  the conversion is exact for each of the seven channel types and keeps their order, so
  comparing two pixels is comparing these values.
\<close>

record ImageView =
  cols :: nat
  rows :: nat
  planes :: nat
  pixel :: "nat \<Rightarrow> nat \<Rightarrow> nat \<Rightarrow> double"

definition image_samples :: "ImageView \<Rightarrow> double list" where
  "image_samples img =
     concat (map (\<lambda>p. concat (map (\<lambda>r. map (\<lambda>c. pixel img c r p) [0..<cols img])
                                   [0..<rows img]))
                 [0..<planes img])"

record BBox2 =
  bbox_min :: "double \<times> double"
  bbox_max :: "double \<times> double"

definition vec_x :: "double \<times> double \<Rightarrow> double" where
  "vec_x v = fst v"

definition vec_y :: "double \<times> double \<Rightarrow> double" where
  "vec_y v = snd v"

text \<open>
  \<^verbatim>\<open>vw::cartography::GeoReference\<close> through the four things the function reads:
  what \<^verbatim>\<open>operator<<\<close> prints, \<^verbatim>\<open>bounding_box(width, height)\<close>, the entries
  of \<^verbatim>\<open>transform()\<close>, and \<^verbatim>\<open>datum().name()\<close>.
\<close>

record GeoReference =
  georef_text :: string
  georef_bounding_box :: "nat \<Rightarrow> nat \<Rightarrow> BBox2"
  georef_transform :: "nat \<Rightarrow> nat \<Rightarrow> double"
  datum_name :: string

subsection \<open>std::min_element and std::max_element\<close>

text \<open>
  Iterators into a range are positions in the list of its elements; the position
  \<open>length xs\<close> is \<^verbatim>\<open>last\<close>. On an empty range both algorithms return
  \<^verbatim>\<open>last\<close>. Otherwise they walk the whole range from its second element, keeping
  the position of the smallest (largest) element seen; \<open>v\<close> is the element at the
  kept position and \<open>lt\<close> is the \<^verbatim>\<open>operator<\<close> of the elements.
\<close>

primrec min_element_loop ::
  "('a \<Rightarrow> 'a \<Rightarrow> bool) \<Rightarrow> 'a list \<Rightarrow> nat \<Rightarrow> nat \<Rightarrow> 'a \<Rightarrow> nat"
where
  "min_element_loop lt [] first smallest v = smallest"
| "min_element_loop lt (x # xs) first smallest v =
     (if lt x v then min_element_loop lt xs (Suc first) first x
      else min_element_loop lt xs (Suc first) smallest v)"

definition min_element :: "('a \<Rightarrow> 'a \<Rightarrow> bool) \<Rightarrow> 'a list \<Rightarrow> nat" where
  "min_element lt xs =
     (case xs of [] \<Rightarrow> 0 | x # rest \<Rightarrow> min_element_loop lt rest 1 0 x)"

primrec max_element_loop ::
  "('a \<Rightarrow> 'a \<Rightarrow> bool) \<Rightarrow> 'a list \<Rightarrow> nat \<Rightarrow> nat \<Rightarrow> 'a \<Rightarrow> nat"
where
  "max_element_loop lt [] first largest v = largest"
| "max_element_loop lt (x # xs) first largest v =
     (if lt v x then max_element_loop lt xs (Suc first) first x
      else max_element_loop lt xs (Suc first) largest v)"

definition max_element :: "('a \<Rightarrow> 'a \<Rightarrow> bool) \<Rightarrow> 'a list \<Rightarrow> nat" where
  "max_element lt xs =
     (case xs of [] \<Rightarrow> 0 | x # rest \<Rightarrow> max_element_loop lt rest 1 0 x)"

subsection \<open>Files and streams\<close>

text \<open>
  A file is kept as the sequence of the outputs written to it, one entry for each
  \<^verbatim>\<open>fprintf\<close> call; its bytes are their concatenation. \<open>can_open\<close> says for
  which paths \<^verbatim>\<open>fopen(path, "w")\<close> succeeds, and \<open>open_streams\<close> lists the
  streams that are open. A \<^verbatim>\<open>FILE*\<close> is \<open>None\<close> when null and otherwise the
  path its stream writes to.
\<close>

record filesystem =
  files :: "string \<rightharpoonup> string list"
  can_open :: "string \<Rightarrow> bool"
  open_streams :: "string list"

type_synonym FILE = string

definition file_bytes :: "filesystem \<Rightarrow> string \<Rightarrow> string option" where
  "file_bytes fs p = map_option concat (files fs p)"

definition fopen_w :: "filesystem \<Rightarrow> string \<Rightarrow> FILE option \<times> filesystem" where
  "fopen_w fs p =
     (if can_open fs p
      then (Some p, fs\<lparr>files := (files fs)(p \<mapsto> []), open_streams := p # open_streams fs\<rparr>)
      else (None, fs))"

definition fprintf :: "filesystem \<Rightarrow> FILE \<Rightarrow> string \<Rightarrow> filesystem" where
  "fprintf fs stream s =
     fs\<lparr>files := (files fs)(stream \<mapsto>
           (case files fs stream of None \<Rightarrow> [s] | Some written \<Rightarrow> written @ [s]))\<rparr>"

primrec fprintf_each :: "filesystem \<Rightarrow> FILE \<Rightarrow> string list \<Rightarrow> filesystem" where
  "fprintf_each fs stream [] = fs"
| "fprintf_each fs stream (s # ss) = fprintf_each (fprintf fs stream s) stream ss"

definition fclose :: "filesystem \<Rightarrow> FILE \<Rightarrow> filesystem" where
  "fclose fs stream = fs\<lparr>open_streams := remove1 stream (open_streams fs)\<rparr>"

subsection \<open>The endianness probe\<close>

text \<open>
  DEM.h, lines 104 to 108: a union of a \<^verbatim>\<open>short\<close> and two \<^verbatim>\<open>char\<close>s.
  \<open>short_bytes\<close> is the object representation of a 16-bit \<^verbatim>\<open>short\<close> on the
  host: the low byte first on a little-endian host, the high byte first on a big-endian
  one.
\<close>

datatype endianness = little_endian | big_endian

definition short_bytes :: "endianness \<Rightarrow> 16 word \<Rightarrow> 8 word list" where
  "short_bytes host number =
     (case host of
        little_endian \<Rightarrow> [ucast number, ucast (drop_bit 8 number)]
      | big_endian \<Rightarrow> [ucast (drop_bit 8 number), ucast number])"

definition short_endian_check :: "endianness \<Rightarrow> int" where
  "short_endian_check host =
     (let number = (1 :: 16 word);
          bytes = short_bytes host number
      in if (ucast number :: 8 word) = bytes ! 1 then 1 else 0)"

subsection \<open>write_ENVI_header\<close>

datatype undefined_behaviour = Null_stream | End_iterator_dereferenced

text \<open>
  What a use of \<^verbatim>\<open>write_ENVI_header\<close> comes to. \<open>Ill_formed\<close>: the
  instantiation does not compile, so there is no call. \<open>Undefined\<close>: the call reaches
  an operation whose behaviour the language leaves undefined, in the given state of the
  files; nothing is known from there on. \<open>Returns\<close>: the call returns, leaving the
  files in the given state. The function has no other way to end: it throws nothing and
  tests nothing.
\<close>

datatype outcome =
    Returns filesystem
  | Undefined undefined_behaviour filesystem
  | Ill_formed

definition explicit_error :: "outcome \<Rightarrow> bool" where
  "explicit_error r = (case r of Ill_formed \<Rightarrow> True | _ \<Rightarrow> False)"

text \<open>DEM.h, lines 49 to 63: the constant text that opens the description block.\<close>

definition provenance_text :: "string list" where
  "provenance_text =
    [''description = { \<newline>'',
     ''   -- Digital Elevation Map generated by the NASA Ames Stereo Pipeline --\<newline>'',
     ''   \<newline>'',
     ''   The Ames Stereo Pipeline generates 3D coordinates in a planetocentric \<newline>'',
     ''   coordinate system with the origin at the planetary center of mass.\<newline>'',
     ''   Elevations are referenced relative to standards set by the International\<newline>'',
     ''   Astronomical Union (IAU)\<newline>'',
     ''   \<newline>'',
     ''   This DEM was generated using an area based correlation technique followed by several \<newline>'',
     ''   several stages of outlier detection.  This produced a map of the disparities for each \<newline>'',
     ''   pixel which was then interpolated (hole filled) using a 2D non-uniform b-spline fitting\<newline>'',
     ''   process.  You should find a interpolation map file included in this archive that shows\<newline>'',
     ''   which pixels represent interpolated data.\<newline>'',
     ''   \<newline>'',
     ''   Projection Information:\<newline>'']"

text \<open>
  DEM.h, lines 41 to 112. \<open>channel_type\<close> is the channel type of the view's pixel
  type (line 94), fixed when the template is instantiated, and \<open>host\<close> is the byte
  order of the machine the call runs on. Line 95 names
  \<^verbatim>\<open>vw_to_envi_channel_type<channel_type>::value()\<close>; where the resolver has no
  value this is an error of the instantiation, found before any call can run, which is
  why the resolver is consulted first. The statements then follow in the order of the
  source: the stream is opened and used without a test (lines 46 and 48), the two
  elements are read through the iterators the algorithms return (lines 70 and 71), and
  the stream is closed by the last statement (line 111).
\<close>

definition write_ENVI_header ::
  "ChannelT \<Rightarrow> endianness \<Rightarrow> string \<Rightarrow> double \<Rightarrow> ImageView \<Rightarrow> GeoReference \<Rightarrow> filesystem \<Rightarrow> outcome"
where
  "write_ENVI_header channel_type host header_name default_z_value img georef fs =
     (case vw_to_envi_channel_type channel_type of
        None \<Rightarrow> Ill_formed
      | Some data_type \<Rightarrow>
         (case fopen_w fs header_name of
            (None, fs0) \<Rightarrow> Undefined Null_stream fs0
          | (Some headerFile, fs0) \<Rightarrow>
             (let fs1 = fprintf fs0 headerFile ''ENVI\<newline>'';
                  fs2 = fprintf_each fs1 headerFile provenance_text;
                  fs3 = fprintf fs2 headerFile (''   '' @ c_str (georef_text georef) @ ''\<newline>'');
                  bounding_box = georef_bounding_box georef (cols img) (rows img);
                  samples = image_samples img;
                  smallest = min_element dless samples
              in if smallest = length samples then Undefined End_iterator_dereferenced fs3
                 else
                  (let min_value = samples ! smallest;
                       largest = max_element dless samples
                   in if largest = length samples then Undefined End_iterator_dereferenced fs3
                      else
                       (let max_value = samples ! largest;
                            fs4 = fprintf_each fs3 headerFile
                              [''   \<newline>'',
                               ''   Bounding box:\<newline>'',
                               ''     Minimum X (left)    = '' @ fmt_f (vec_x (bbox_min bounding_box)) @ ''\<newline>'',
                               ''     Minimum Y (top)     = '' @ fmt_f (vec_y (bbox_min bounding_box)) @ ''\<newline>'',
                               ''     Maximum X (right)   = '' @ fmt_f (vec_x (bbox_max bounding_box)) @ ''\<newline>'',
                               ''     Maximum Y (bottom)  = '' @ fmt_f (vec_y (bbox_max bounding_box)) @ ''\<newline>'',
                               ''     Minimum Z           = '' @ fmt_f min_value @ ''\<newline>'',
                               ''     Maximum Z           = '' @ fmt_f max_value @ ''\<newline>'',
                               ''     Default Z           = '' @ fmt_f default_z_value @ ''\<newline>'',
                               ''}\<newline>'',
                               ''samples = '' @ fmt_d (int (cols img)) @ ''\<newline>'',
                               ''lines   = '' @ fmt_d (int (rows img)) @ ''\<newline>'',
                               ''bands   = '' @ fmt_d (int (planes img)) @ ''\<newline>'',
                               ''header offset = 0\<newline>''];
                            x_pixel_scaling = georef_transform georef 0 0;
                            y_pixel_scaling = georef_transform georef 1 1;
                            fs5 = fprintf fs4 headerFile
                              (''map info = { Geographic Lat/Lon, 1.5, 1.5, '' @
                               fmt_f (vec_x (bbox_min bounding_box)) @ '', '' @
                               fmt_f (vec_y (bbox_max bounding_box)) @ '', '' @
                               fmt_f x_pixel_scaling @ '', '' @
                               fmt_f y_pixel_scaling @ '', '' @
                               c_str (datum_name georef) @ '', units=Degrees}\<newline>'');
                            fs6 = fprintf fs5 headerFile ''file type = ENVI Standard\<newline>'';
                            fs7 = fprintf fs6 headerFile (''data type = '' @ fmt_d data_type @ ''\<newline>'');
                            fs8 = fprintf fs7 headerFile ''interleave = bsq\<newline>'';
                            byte_order = short_endian_check host;
                            fs9 = fprintf fs8 headerFile (''byte order = '' @ fmt_d byte_order @ ''\<newline>'');
                            fs10 = fprintf fs9 headerFile ''\<newline>''
                        in Returns (fclose fs10 headerFile))))))"

subsection \<open>Concrete inputs\<close>

text \<open>
  The inputs the examples below are evaluated at: a view of 4 columns, 3 rows and 1
  plane whose samples are all 7.0; a view of 3 columns whose samples are NaN, 1.0 and
  2.0; views without samples; a georeference with X scale
  0.5, Y scale -0.5 and the bounding box from (10.0, 20.0) to (12.0, 21.5); a file
  system in which only \<^verbatim>\<open>dem.hdr\<close> can be opened for writing, once without any
  file and once with an older file at that path.
\<close>

definition example_image :: ImageView where
  "example_image = \<lparr>cols = 4, rows = 3, planes = 1, pixel = (\<lambda>c r p. Finite 7)\<rparr>"

definition empty_image :: ImageView where
  "empty_image = \<lparr>cols = 0, rows = 3, planes = 1, pixel = (\<lambda>c r p. Finite 7)\<rparr>"

definition nan_image :: ImageView where
  "nan_image =
     \<lparr>cols = 3, rows = 1, planes = 1,
      pixel = (\<lambda>c r p. if c = 0 then NaN False else Finite (real c))\<rparr>"

definition example_georef :: GeoReference where
  "example_georef =
     \<lparr>georef_text = ''-- Proj.4 String: +proj=longlat'',
      georef_bounding_box =
        (\<lambda>width height.
           \<lparr>bbox_min = (Finite 10, Finite 20), bbox_max = (Finite 12, Finite (43 / 2))\<rparr>),
      georef_transform =
        (\<lambda>i j. if i = 0 \<and> j = 0 then Finite (1 / 2)
               else if i = 1 \<and> j = 1 then Finite (- 1 / 2)
               else if i = 0 \<and> j = 2 then Finite 10
               else if i = 1 \<and> j = 2 then Finite (43 / 2)
               else if i = 2 \<and> j = 2 then Finite 1
               else Finite 0),
      datum_name = ''D_MOON''\<rparr>"

definition example_filesystem :: filesystem where
  "example_filesystem =
     \<lparr>files = Map.empty, can_open = (\<lambda>p. p = ''dem.hdr''), open_streams = []\<rparr>"

definition used_filesystem :: filesystem where
  "used_filesystem =
     \<lparr>files = [''dem.hdr'' \<mapsto> [''ENVI\<newline>'', ''samples = 1\<newline>''], ''dem.raw'' \<mapsto> [''raw'']],
      can_open = (\<lambda>p. p = ''dem.hdr''), open_streams = []\<rparr>"

section \<open>Properties\<close>

subsection \<open>The resolver\<close>

lemma vw_to_envi_channel_type_None_iff:
  "vw_to_envi_channel_type k = None \<longleftrightarrow>
     k \<notin> {vw_uint8, vw_int16, vw_int32, vw_float32, vw_float64, vw_uint16, vw_uint32}"
  by (cases k) simp_all

subsection \<open>The two scans\<close>

text \<open>
  On a range that is not empty each scan ends on a position inside the range, whatever
  the comparison is.
\<close>

lemma min_element_loop_range:
  "smallest < first \<Longrightarrow> min_element_loop lt xs first smallest v < first + length xs"
proof (induction xs arbitrary: first smallest v)
  case Nil
  then show ?case by simp
next
  case (Cons x xs)
  have "min_element_loop lt xs (Suc first) first x < Suc first + length xs"
    by (rule Cons.IH) simp
  moreover have "min_element_loop lt xs (Suc first) smallest v < Suc first + length xs"
    using Cons.prems by (intro Cons.IH) simp
  ultimately show ?case by simp
qed

lemma min_element_in_range: "xs \<noteq> [] \<Longrightarrow> min_element lt xs < length xs"
  using min_element_loop_range [of 0 1 lt "tl xs" "hd xs"]
  by (cases xs) (simp_all add: min_element_def)

lemma max_element_loop_range:
  "largest < first \<Longrightarrow> max_element_loop lt xs first largest v < first + length xs"
proof (induction xs arbitrary: first largest v)
  case Nil
  then show ?case by simp
next
  case (Cons x xs)
  have "max_element_loop lt xs (Suc first) first x < Suc first + length xs"
    by (rule Cons.IH) simp
  moreover have "max_element_loop lt xs (Suc first) largest v < Suc first + length xs"
    using Cons.prems by (intro Cons.IH) simp
  ultimately show ?case by simp
qed

lemma max_element_in_range: "xs \<noteq> [] \<Longrightarrow> max_element lt xs < length xs"
  using max_element_loop_range [of 0 1 lt "tl xs" "hd xs"]
  by (cases xs) (simp_all add: max_element_def)

text \<open>
  Away from NaN the comparison of \<^verbatim>\<open>double\<close> is a total order up to the sign of
  zero, and then the element a scan ends on is a least (greatest) element of the range.
  \<open>pre\<close> is the part of the range the loop has passed.
\<close>

lemma dle_refl: "\<not> is_nan a \<Longrightarrow> dle a a"
  by (simp add: dle_def)

lemma dle_total: "\<not> is_nan a \<Longrightarrow> \<not> is_nan b \<Longrightarrow> \<not> dless a b \<Longrightarrow> dle b a"
  by (auto simp add: dle_def dless_def)

lemma dless_dle_trans: "dless a b \<Longrightarrow> dle b c \<Longrightarrow> dle a c"
  by (auto simp add: dle_def dless_def)

lemma dle_dless_trans: "dle a b \<Longrightarrow> dless b c \<Longrightarrow> dle a c"
  by (auto simp add: dle_def dless_def)

lemma dle_not_nan: "dle a b \<Longrightarrow> \<not> is_nan a \<and> \<not> is_nan b"
  by (simp add: dle_def)

lemma min_element_loop_least:
  assumes "\<forall>s\<in>set xs. \<not> is_nan s"
    and "length pre = first" and "smallest < first" and "pre ! smallest = v"
    and "\<forall>s\<in>set pre. dle v s"
  shows "\<forall>s\<in>set (pre @ xs). dle ((pre @ xs) ! min_element_loop dless xs first smallest v) s"
  using assms
proof (induction xs arbitrary: pre first smallest v)
  case Nil
  then show ?case by simp
next
  case (Cons x xs)
  have v: "\<not> is_nan v"
    using Cons.prems(2,3,4,5) dle_not_nan nth_mem by blast
  have x: "\<not> is_nan x" and xs: "\<forall>s\<in>set xs. \<not> is_nan s"
    using Cons.prems(1) by simp_all
  show ?case
  proof (cases "dless x v")
    case True
    have "\<forall>s\<in>set (pre @ [x]). dle x s"
      using True Cons.prems(5) x by (auto intro: dless_dle_trans dle_refl)
    with xs Cons.prems(2)
    have "\<forall>s\<in>set ((pre @ [x]) @ xs).
        dle (((pre @ [x]) @ xs) ! min_element_loop dless xs (Suc first) first x) s"
      by (intro Cons.IH) auto
    with True show ?thesis by simp
  next
    case False
    have "\<forall>s\<in>set (pre @ [x]). dle v s"
      using False Cons.prems(5) x v by (auto intro: dle_total)
    with xs Cons.prems(2,3,4)
    have "\<forall>s\<in>set ((pre @ [x]) @ xs).
        dle (((pre @ [x]) @ xs) ! min_element_loop dless xs (Suc first) smallest v) s"
      by (intro Cons.IH) (auto simp add: nth_append)
    with False show ?thesis by simp
  qed
qed

lemma min_element_least:
  assumes "xs \<noteq> []" and "\<forall>s\<in>set xs. \<not> is_nan s"
  shows "\<forall>s\<in>set xs. dle (xs ! min_element dless xs) s"
proof -
  obtain x rest where xs: "xs = x # rest" using assms(1) by (cases xs) auto
  have "\<forall>s\<in>set ([x] @ rest). dle (([x] @ rest) ! min_element_loop dless rest 1 0 x) s"
    using assms(2) by (intro min_element_loop_least) (simp_all add: xs dle_refl)
  then show ?thesis by (simp add: xs min_element_def)
qed

lemma max_element_loop_greatest:
  assumes "\<forall>s\<in>set xs. \<not> is_nan s"
    and "length pre = first" and "largest < first" and "pre ! largest = v"
    and "\<forall>s\<in>set pre. dle s v"
  shows "\<forall>s\<in>set (pre @ xs). dle s ((pre @ xs) ! max_element_loop dless xs first largest v)"
  using assms
proof (induction xs arbitrary: pre first largest v)
  case Nil
  then show ?case by simp
next
  case (Cons x xs)
  have v: "\<not> is_nan v"
    using Cons.prems(2,3,4,5) dle_not_nan nth_mem by blast
  have x: "\<not> is_nan x" and xs: "\<forall>s\<in>set xs. \<not> is_nan s"
    using Cons.prems(1) by simp_all
  show ?case
  proof (cases "dless v x")
    case True
    have "\<forall>s\<in>set (pre @ [x]). dle s x"
      using True Cons.prems(5) x by (auto intro: dle_dless_trans dle_refl)
    with xs Cons.prems(2)
    have "\<forall>s\<in>set ((pre @ [x]) @ xs).
        dle s (((pre @ [x]) @ xs) ! max_element_loop dless xs (Suc first) first x)"
      by (intro Cons.IH) auto
    with True show ?thesis by simp
  next
    case False
    have "\<forall>s\<in>set (pre @ [x]). dle s v"
      using False Cons.prems(5) x v by (auto intro: dle_total)
    with xs Cons.prems(2,3,4)
    have "\<forall>s\<in>set ((pre @ [x]) @ xs).
        dle s (((pre @ [x]) @ xs) ! max_element_loop dless xs (Suc first) largest v)"
      by (intro Cons.IH) (auto simp add: nth_append)
    with False show ?thesis by simp
  qed
qed

lemma max_element_greatest:
  assumes "xs \<noteq> []" and "\<forall>s\<in>set xs. \<not> is_nan s"
  shows "\<forall>s\<in>set xs. dle s (xs ! max_element dless xs)"
proof -
  obtain x rest where xs: "xs = x # rest" using assms(1) by (cases xs) auto
  have "\<forall>s\<in>set ([x] @ rest). dle s (([x] @ rest) ! max_element_loop dless rest 1 0 x)"
    using assms(2) by (intro max_element_loop_greatest) (simp_all add: xs dle_refl)
  then show ?thesis by (simp add: xs max_element_def)
qed

subsection \<open>The samples of a view\<close>

lemma set_image_samples:
  "set (image_samples img) =
     {pixel img c r p | c r p. c < cols img \<and> r < rows img \<and> p < planes img}"
  (is "?L = ?R")
proof (rule set_eqI)
  fix v
  have "v \<in> ?L \<longleftrightarrow>
          (\<exists>p\<in>{0..<planes img}. \<exists>r\<in>{0..<rows img}. \<exists>c\<in>{0..<cols img}. v = pixel img c r p)"
    by (auto simp add: image_samples_def)
  also have "\<dots> \<longleftrightarrow> (\<exists>c r p. v = pixel img c r p \<and> c < cols img \<and> r < rows img \<and> p < planes img)"
    by (simp add: Bex_def) blast
  also have "\<dots> \<longleftrightarrow> v \<in> ?R"
    by simp
  finally show "v \<in> ?L \<longleftrightarrow> v \<in> ?R" .
qed

lemma image_samples_Nil_iff:
  "image_samples img = [] \<longleftrightarrow> cols img = 0 \<or> rows img = 0 \<or> planes img = 0"
proof -
  have "image_samples img = [] \<longleftrightarrow> set (image_samples img) = {}" by simp
  also have "\<dots> \<longleftrightarrow> cols img = 0 \<or> rows img = 0 \<or> planes img = 0"
    unfolding set_image_samples by auto
  finally show ?thesis .
qed

subsection \<open>Writing to a stream\<close>

lemma fprintf_written:
  "files fs stream = Some written \<Longrightarrow>
   fprintf fs stream s = fs\<lparr>files := (files fs)(stream \<mapsto> written @ [s])\<rparr>"
  by (simp add: fprintf_def)

lemma fprintf_each_written:
  "files fs stream = Some written \<Longrightarrow>
   fprintf_each fs stream ss = fs\<lparr>files := (files fs)(stream \<mapsto> written @ ss)\<rparr>"
proof (induction ss arbitrary: fs written)
  case Nil
  then have "(files fs)(stream \<mapsto> written) = files fs" by (simp add: fun_upd_idem)
  then show ?case by simp
next
  case (Cons s ss)
  let ?fs = "fs\<lparr>files := (files fs)(stream \<mapsto> written @ [s])\<rparr>"
  have "fprintf_each fs stream (s # ss) = fprintf_each ?fs stream ss"
    using Cons.prems by (simp add: fprintf_written)
  also have "\<dots> = ?fs\<lparr>files := (files ?fs)(stream \<mapsto> (written @ [s]) @ ss)\<rparr>"
    by (rule Cons.IH) simp
  also have "\<dots> = fs\<lparr>files := (files fs)(stream \<mapsto> written @ s # ss)\<rparr>"
    by simp
  finally show ?case .
qed

lemma fprintf_each_single: "fprintf fs stream s = fprintf_each fs stream [s]"
  by simp

lemma fprintf_each_append:
  "fprintf_each (fprintf_each fs stream ss) stream ts = fprintf_each fs stream (ss @ ts)"
  by (induction ss arbitrary: fs) simp_all

lemma length_provenance_text: "length provenance_text = 15"
  by (simp add: provenance_text_def)

subsection \<open>The probe\<close>

lemma short_endian_check_eq:
  "short_endian_check little_endian = 0" "short_endian_check big_endian = 1"
  by (simp_all add: short_endian_check_def short_bytes_def)

subsection \<open>The four ways a use of write_ENVI_header ends\<close>

lemma write_ENVI_header_ill_formed:
  "vw_to_envi_channel_type channel_type = None \<Longrightarrow>
   write_ENVI_header channel_type host header_name default_z_value img georef fs = Ill_formed"
  by (simp add: write_ENVI_header_def)

lemma write_ENVI_header_null_stream:
  "vw_to_envi_channel_type channel_type = Some data_type \<Longrightarrow> \<not> can_open fs header_name \<Longrightarrow>
   write_ENVI_header channel_type host header_name default_z_value img georef fs =
     Undefined Null_stream fs"
  by (simp add: write_ENVI_header_def fopen_w_def)

lemma write_ENVI_header_end_iterator:
  assumes "vw_to_envi_channel_type channel_type = Some data_type"
    and "can_open fs header_name"
    and "image_samples img = []"
  shows "write_ENVI_header channel_type host header_name default_z_value img georef fs =
     Undefined End_iterator_dereferenced
       (fs\<lparr>files := (files fs)(header_name \<mapsto>
              ''ENVI\<newline>'' # provenance_text @
              [''   '' @ c_str (georef_text georef) @ ''\<newline>'']),
           open_streams := header_name # open_streams fs\<rparr>)"
  using assms
  by (simp add: write_ENVI_header_def fopen_w_def Let_def min_element_def
      fprintf_written fprintf_each_written)

lemma write_ENVI_header_returns:
  assumes "vw_to_envi_channel_type channel_type = Some data_type"
    and "can_open fs header_name"
    and "image_samples img \<noteq> []"
  shows "write_ENVI_header channel_type host header_name default_z_value img georef fs =
     Returns
       (fs\<lparr>files := (files fs)(header_name \<mapsto>
              ''ENVI\<newline>'' # provenance_text @
              [''   '' @ c_str (georef_text georef) @ ''\<newline>'',
               ''   \<newline>'',
               ''   Bounding box:\<newline>'',
               ''     Minimum X (left)    = '' @
                 fmt_f (vec_x (bbox_min (georef_bounding_box georef (cols img) (rows img)))) @ ''\<newline>'',
               ''     Minimum Y (top)     = '' @
                 fmt_f (vec_y (bbox_min (georef_bounding_box georef (cols img) (rows img)))) @ ''\<newline>'',
               ''     Maximum X (right)   = '' @
                 fmt_f (vec_x (bbox_max (georef_bounding_box georef (cols img) (rows img)))) @ ''\<newline>'',
               ''     Maximum Y (bottom)  = '' @
                 fmt_f (vec_y (bbox_max (georef_bounding_box georef (cols img) (rows img)))) @ ''\<newline>'',
               ''     Minimum Z           = '' @ fmt_f (image_samples img ! min_element dless (image_samples img)) @ ''\<newline>'',
               ''     Maximum Z           = '' @ fmt_f (image_samples img ! max_element dless (image_samples img)) @ ''\<newline>'',
               ''     Default Z           = '' @ fmt_f default_z_value @ ''\<newline>'',
               ''}\<newline>'',
               ''samples = '' @ fmt_d (int (cols img)) @ ''\<newline>'',
               ''lines   = '' @ fmt_d (int (rows img)) @ ''\<newline>'',
               ''bands   = '' @ fmt_d (int (planes img)) @ ''\<newline>'',
               ''header offset = 0\<newline>'',
               ''map info = { Geographic Lat/Lon, 1.5, 1.5, '' @
                 fmt_f (vec_x (bbox_min (georef_bounding_box georef (cols img) (rows img)))) @ '', '' @
                 fmt_f (vec_y (bbox_max (georef_bounding_box georef (cols img) (rows img)))) @ '', '' @
                 fmt_f (georef_transform georef 0 0) @ '', '' @
                 fmt_f (georef_transform georef 1 1) @ '', '' @
                 c_str (datum_name georef) @ '', units=Degrees}\<newline>'',
               ''file type = ENVI Standard\<newline>'',
               ''data type = '' @ fmt_d data_type @ ''\<newline>'',
               ''interleave = bsq\<newline>'',
               ''byte order = '' @ fmt_d (short_endian_check host) @ ''\<newline>'',
               ''\<newline>''])\<rparr>)"
proof -
  have lo: "min_element dless (image_samples img) \<noteq> length (image_samples img)"
    and hi: "max_element dless (image_samples img) \<noteq> length (image_samples img)"
    using min_element_in_range [OF assms(3), of dless] max_element_in_range [OF assms(3), of dless]
    by simp_all
  define fs0 where "fs0 = fs\<lparr>files := (files fs)(header_name \<mapsto> []), open_streams := header_name # open_streams fs\<rparr>"
  have open_ok: "fopen_w fs header_name = (Some header_name, fs0)"
    using assms(2) by (simp add: fopen_w_def fs0_def)
  have files0: "files fs0 header_name = Some []"
    by (simp add: fs0_def)
  show ?thesis
    unfolding write_ENVI_header_def assms(1) open_ok Let_def
    \<comment> \<open>the tests of lines 46, 70 and 71 are decided\<close>
    apply (simp only: option.case prod.case lo hi if_False)
    \<comment> \<open>the 37 outputs become one list, written to the empty file\<close>
    apply (simp only: fprintf_each_single fprintf_each_append)
    apply (simp only: fprintf_each_written [OF files0] append.simps)
    \<comment> \<open>closing the stream gives back the list of open streams\<close>
    apply (simp add: fclose_def fs0_def)
    done
qed

lemma write_ENVI_header_Returns_D:
  assumes "write_ENVI_header channel_type host header_name default_z_value img georef fs = Returns fs'"
  shows "\<exists>data_type. vw_to_envi_channel_type channel_type = Some data_type"
    and "can_open fs header_name"
    and "image_samples img \<noteq> []"
proof -
  show 1: "\<exists>data_type. vw_to_envi_channel_type channel_type = Some data_type"
  proof (cases "vw_to_envi_channel_type channel_type")
    case None
    with assms show ?thesis by (simp add: write_ENVI_header_ill_formed)
  next
    case (Some data_type)
    then show ?thesis by simp
  qed
  then obtain data_type where dt: "vw_to_envi_channel_type channel_type = Some data_type"
    by blast
  show 2: "can_open fs header_name"
  proof (rule ccontr)
    assume "\<not> can_open fs header_name"
    with assms show False by (simp add: write_ENVI_header_null_stream [OF dt])
  qed
  show "image_samples img \<noteq> []"
  proof
    assume "image_samples img = []"
    with assms show False by (simp add: write_ENVI_header_end_iterator [OF dt 2])
  qed
qed


subsection \<open>The conversions and the scans at the concrete inputs\<close>

lemma fmt_d_examples:
  "fmt_d 0 = ''0''" "fmt_d 1 = ''1''" "fmt_d 3 = ''3''" "fmt_d 4 = ''4''"
  by (simp_all add: fmt_d_def dec_digits.simps digit_char_def)

lemma round_half_even_examples:
  "round_half_even (\<bar>7\<bar> * 1000000) = 7000000"
  "round_half_even (\<bar>10\<bar> * 1000000) = 10000000"
  "round_half_even (\<bar>12\<bar> * 1000000) = 12000000"
  "round_half_even (\<bar>20\<bar> * 1000000) = 20000000"
  "round_half_even (\<bar>43 / 2\<bar> * 1000000) = 21500000"
  "round_half_even (\<bar>1 / 2\<bar> * 1000000) = 500000"
  "round_half_even (\<bar>- 1 / 2\<bar> * 1000000) = 500000"
  "round_half_even (\<bar>- (1 / 2)\<bar> * 1000000) = 500000"
  "round_half_even (\<bar>0\<bar> * 1000000) = 0"
  by (simp_all add: round_half_even_def Let_def)

lemma fmt_fixed_examples:
  "fmt_fixed 7 = ''7.000000''"
  "fmt_fixed 10 = ''10.000000''"
  "fmt_fixed 12 = ''12.000000''"
  "fmt_fixed 20 = ''20.000000''"
  "fmt_fixed (43 / 2) = ''21.500000''"
  "fmt_fixed (1 / 2) = ''0.500000''"
  "fmt_fixed (- 1 / 2) = ''-0.500000''"
  "fmt_fixed (- (1 / 2)) = ''-0.500000''"
  "fmt_fixed 0 = ''0.000000''"
  unfolding fmt_fixed_def round_half_even_examples Let_def
  by (simp_all add: dec_digits.simps digit_char_def) (simp_all add: numeral_eq_Suc)

lemma fmt_f_examples:
  "fmt_f (Finite 7) = ''7.000000''"
  "fmt_f (Finite 10) = ''10.000000''"
  "fmt_f (Finite 12) = ''12.000000''"
  "fmt_f (Finite 20) = ''20.000000''"
  "fmt_f (Finite (43 / 2)) = ''21.500000''"
  "fmt_f (Finite (1 / 2)) = ''0.500000''"
  "fmt_f (Finite (- 1 / 2)) = ''-0.500000''"
  "fmt_f (Finite 0) = ''0.000000''"
  "fmt_f (NaN False) = ''nan''"
  by (simp_all add: fmt_fixed_examples)

lemma image_samples_example_image:
  "image_samples example_image = replicate 12 (Finite 7)"
  by (simp add: image_samples_def example_image_def numeral_eq_Suc)

lemma image_samples_nan_image:
  "image_samples nan_image = [NaN False, Finite 1, Finite 2]"
  by (simp add: image_samples_def nan_image_def numeral_eq_Suc)

lemma scans_nan_image:
  "min_element dless [NaN False, Finite 1, Finite 2] = 0"
  "max_element dless [NaN False, Finite 1, Finite 2] = 0"
  by (simp_all add: min_element_def max_element_def dless_def)

lemma example_georef_values:
  "vec_x (bbox_min (georef_bounding_box example_georef w h)) = Finite 10"
  "vec_y (bbox_min (georef_bounding_box example_georef w h)) = Finite 20"
  "vec_x (bbox_max (georef_bounding_box example_georef w h)) = Finite 12"
  "vec_y (bbox_max (georef_bounding_box example_georef w h)) = Finite (43 / 2)"
  "georef_transform example_georef 0 0 = Finite (1 / 2)"
  "georef_transform example_georef 1 1 = Finite (- 1 / 2)"
  "c_str (datum_name example_georef) = ''D_MOON''"
  "c_str (georef_text example_georef) = ''-- Proj.4 String: +proj=longlat''"
  by (simp_all add: example_georef_def vec_x_def vec_y_def c_str_def)

lemma example_preconditions:
  "vw_to_envi_channel_type vw_float32 \<noteq> None"
  "can_open example_filesystem ''dem.hdr''"
  "can_open used_filesystem ''dem.hdr''"
  "0 < cols example_image" "0 < rows example_image" "0 < planes example_image"
  by (simp_all add: example_filesystem_def used_filesystem_def example_image_def)

section \<open>The claims\<close>

text \<open>
  Claim C1. For each of the seven supported channel types the resolver gives the code of
  the table: 1 for 8-bit unsigned, 2 for 16-bit signed, 3 for 32-bit signed, 4 for 32-bit
  float, 5 for 64-bit float, 12 for 16-bit unsigned and 13 for 32-bit unsigned. It has a
  code exactly for these seven types, no two of them share a code, and for every other
  channel type it has none.
\<close>

theorem vw_to_envi_channel_type_table:
  "vw_to_envi_channel_type vw_uint8 = Some 1 \<and>
   vw_to_envi_channel_type vw_int16 = Some 2 \<and>
   vw_to_envi_channel_type vw_int32 = Some 3 \<and>
   vw_to_envi_channel_type vw_float32 = Some 4 \<and>
   vw_to_envi_channel_type vw_float64 = Some 5 \<and>
   vw_to_envi_channel_type vw_uint16 = Some 12 \<and>
   vw_to_envi_channel_type vw_uint32 = Some 13 \<and>
   dom vw_to_envi_channel_type =
     {vw_uint8, vw_int16, vw_int32, vw_float32, vw_float64, vw_uint16, vw_uint32} \<and>
   inj_on vw_to_envi_channel_type
     {vw_uint8, vw_int16, vw_int32, vw_float32, vw_float64, vw_uint16, vw_uint32} \<and>
   (\<forall>k. (vw_to_envi_channel_type k = None) =
        (k \<notin> {vw_uint8, vw_int16, vw_int32, vw_float32, vw_float64, vw_uint16, vw_uint32}))"
proof -
  have none: "\<forall>k. (vw_to_envi_channel_type k = None) =
        (k \<notin> {vw_uint8, vw_int16, vw_int32, vw_float32, vw_float64, vw_uint16, vw_uint32})"
    using vw_to_envi_channel_type_None_iff by blast
  have "dom vw_to_envi_channel_type =
     {vw_uint8, vw_int16, vw_int32, vw_float32, vw_float64, vw_uint16, vw_uint32}"
    by (rule set_eqI) (simp only: domIff vw_to_envi_channel_type_None_iff not_not)
  moreover have "inj_on vw_to_envi_channel_type
     {vw_uint8, vw_int16, vw_int32, vw_float32, vw_float64, vw_uint16, vw_uint32}"
    by (simp add: inj_on_def)
  ultimately show ?thesis
    using none by simp
qed

text \<open>
  Claim C2, as the code has it. For a view with at least one column, row and plane, none
  of whose samples is a NaN, with a supported channel type and a destination that opens,
  the call returns and the header it leaves holds \<^verbatim>\<open>samples\<close> = the number of
  columns, \<^verbatim>\<open>lines\<close> = the number of rows, \<^verbatim>\<open>bands\<close> = the number of planes,
  and as \<^verbatim>\<open>Minimum Z\<close> and \<^verbatim>\<open>Maximum Z\<close> a least and a greatest of all samples
  of the view: the two scans pass over every pixel of every plane. Where all samples are
  finite these are the least and the greatest of their values. The header is the list of
  the 37 outputs of the call, counted from 0.
\<close>

theorem write_ENVI_header_dimensions_and_z_range:
  assumes "vw_to_envi_channel_type channel_type \<noteq> None"
    and "can_open fs header_name"
    and "0 < cols img" and "0 < rows img" and "0 < planes img"
    and "\<forall>s\<in>set (image_samples img). \<not> is_nan s"
  shows "\<exists>fs' written lo hi.
     write_ENVI_header channel_type host header_name default_z_value img georef fs = Returns fs' \<and>
     files fs' header_name = Some written \<and>
     length written = 37 \<and>
     set (image_samples img) =
       {pixel img c r p | c r p. c < cols img \<and> r < rows img \<and> p < planes img} \<and>
     lo \<in> set (image_samples img) \<and> (\<forall>s\<in>set (image_samples img). dle lo s) \<and>
     hi \<in> set (image_samples img) \<and> (\<forall>s\<in>set (image_samples img). dle s hi) \<and>
     ((\<forall>s\<in>set (image_samples img). rank s = 0) \<longrightarrow>
        magnitude lo = Min (magnitude ` set (image_samples img)) \<and>
        magnitude hi = Max (magnitude ` set (image_samples img))) \<and>
     written ! 23 = ''     Minimum Z           = '' @ fmt_f lo @ ''\<newline>'' \<and>
     written ! 24 = ''     Maximum Z           = '' @ fmt_f hi @ ''\<newline>'' \<and>
     written ! 27 = ''samples = '' @ fmt_d (int (cols img)) @ ''\<newline>'' \<and>
     written ! 28 = ''lines   = '' @ fmt_d (int (rows img)) @ ''\<newline>'' \<and>
     written ! 29 = ''bands   = '' @ fmt_d (int (planes img)) @ ''\<newline>''"
proof -
  from assms(1) obtain data_type where dt: "vw_to_envi_channel_type channel_type = Some data_type"
    by blast
  have ne: "image_samples img \<noteq> []"
    using assms(3-5) by (simp add: image_samples_Nil_iff)
  define lo where "lo = image_samples img ! min_element dless (image_samples img)"
  define hi where "hi = image_samples img ! max_element dless (image_samples img)"
  have lo_in: "lo \<in> set (image_samples img)" and hi_in: "hi \<in> set (image_samples img)"
    unfolding lo_def hi_def
    using min_element_in_range [OF ne] max_element_in_range [OF ne] by simp_all
  have least: "\<forall>s\<in>set (image_samples img). dle lo s"
    unfolding lo_def by (rule min_element_least [OF ne assms(6)])
  have greatest: "\<forall>s\<in>set (image_samples img). dle s hi"
    unfolding hi_def by (rule max_element_greatest [OF ne assms(6)])
  have extremes: "magnitude lo = Min (magnitude ` set (image_samples img)) \<and>
      magnitude hi = Max (magnitude ` set (image_samples img))"
    if fin: "\<forall>s\<in>set (image_samples img). rank s = 0"
  proof -
    have "\<forall>s\<in>set (image_samples img). magnitude lo \<le> magnitude s"
      using least fin lo_in by (auto simp add: dle_def)
    then have "Min (magnitude ` set (image_samples img)) = magnitude lo"
      using lo_in by (intro Min_eqI) auto
    moreover have "\<forall>s\<in>set (image_samples img). magnitude s \<le> magnitude hi"
      using greatest fin hi_in by (auto simp add: dle_def)
    then have "Max (magnitude ` set (image_samples img)) = magnitude hi"
      using hi_in by (intro Max_eqI) auto
    ultimately show ?thesis by simp
  qed
  have lines: "\<exists>fs' written.
     write_ENVI_header channel_type host header_name default_z_value img georef fs = Returns fs' \<and>
     files fs' header_name = Some written \<and>
     length written = 37 \<and>
     written ! 23 = ''     Minimum Z           = '' @ fmt_f lo @ ''\<newline>'' \<and>
     written ! 24 = ''     Maximum Z           = '' @ fmt_f hi @ ''\<newline>'' \<and>
     written ! 27 = ''samples = '' @ fmt_d (int (cols img)) @ ''\<newline>'' \<and>
     written ! 28 = ''lines   = '' @ fmt_d (int (rows img)) @ ''\<newline>'' \<and>
     written ! 29 = ''bands   = '' @ fmt_d (int (planes img)) @ ''\<newline>''"
    unfolding write_ENVI_header_returns [OF dt assms(2) ne] lo_def hi_def
    by (simp add: nth_append length_provenance_text)
  from lines lo_in hi_in least greatest extremes set_image_samples [of img]
  show ?thesis by blast
qed

text \<open>
  The view of 4 columns, 3 rows and 1 plane with all samples 7.0: the fields are 4, 3
  and 1, and both extremes print as 7.000000.
\<close>

theorem write_ENVI_header_dimensions_and_z_range_example:
  "image_samples example_image = replicate 12 (Finite 7) \<and>
   (\<exists>fs' written.
     write_ENVI_header vw_float32 little_endian ''dem.hdr'' (Finite 0) example_image example_georef
       example_filesystem = Returns fs' \<and>
     files fs' ''dem.hdr'' = Some written \<and>
     written ! 23 = ''     Minimum Z           = 7.000000\<newline>'' \<and>
     written ! 24 = ''     Maximum Z           = 7.000000\<newline>'' \<and>
     written ! 27 = ''samples = 4\<newline>'' \<and>
     written ! 28 = ''lines   = 3\<newline>'' \<and>
     written ! 29 = ''bands   = 1\<newline>'')"
proof -
  have no_nan: "\<forall>s\<in>set (image_samples example_image). \<not> is_nan s"
    by (simp add: image_samples_example_image)
  have dims: "cols example_image = 4" "rows example_image = 3" "planes example_image = 1"
    by (simp_all add: example_image_def)
  from write_ENVI_header_dimensions_and_z_range [OF example_preconditions(1,2,4,5,6) no_nan,
      of little_endian "Finite 0" example_georef]
  obtain fs' written lo hi where
    run: "write_ENVI_header vw_float32 little_endian ''dem.hdr'' (Finite 0) example_image
        example_georef example_filesystem = Returns fs'"
      "files fs' ''dem.hdr'' = Some written"
    and lo: "lo \<in> set (image_samples example_image)"
    and hi: "hi \<in> set (image_samples example_image)"
    and lines: "written ! 23 = ''     Minimum Z           = '' @ fmt_f lo @ ''\<newline>''"
      "written ! 24 = ''     Maximum Z           = '' @ fmt_f hi @ ''\<newline>''"
      "written ! 27 = ''samples = '' @ fmt_d (int (cols example_image)) @ ''\<newline>''"
      "written ! 28 = ''lines   = '' @ fmt_d (int (rows example_image)) @ ''\<newline>''"
      "written ! 29 = ''bands   = '' @ fmt_d (int (planes example_image)) @ ''\<newline>''"
    by blast
  have "lo = Finite 7" "hi = Finite 7"
    using lo hi by (simp_all add: image_samples_example_image)
  with lines have
    "written ! 23 = ''     Minimum Z           = 7.000000\<newline>''"
    "written ! 24 = ''     Maximum Z           = 7.000000\<newline>''"
    "written ! 27 = ''samples = 4\<newline>''"
    "written ! 28 = ''lines   = 3\<newline>''"
    "written ! 29 = ''bands   = 1\<newline>''"
    by (simp_all add: dims fmt_f_examples fmt_fixed_examples fmt_d_examples)
  with run image_samples_example_image show ?thesis by blast
qed

text \<open>
  The claim as the specification states it, the least and the greatest sample for every
  view that has samples, fails for the 32-bit float view with the samples NaN, 1.0 and
  2.0. No comparison with the NaN holds, so both scans stay on the first sample and both
  lines print \<^verbatim>\<open>nan\<close>, which is neither below 1.0 nor above 2.0.
\<close>

theorem write_ENVI_header_nan_sample:
  "image_samples nan_image = [NaN False, Finite 1, Finite 2] \<and>
   \<not> dle (NaN False) (Finite 1) \<and>
   \<not> dle (Finite 2) (NaN False) \<and>
   write_ENVI_header vw_float32 little_endian ''dem.hdr'' (Finite 0) nan_image example_georef
     example_filesystem =
     Returns
       (example_filesystem\<lparr>files := [''dem.hdr'' \<mapsto>
          ''ENVI\<newline>'' # provenance_text @
          [''   -- Proj.4 String: +proj=longlat\<newline>'',
           ''   \<newline>'',
           ''   Bounding box:\<newline>'',
           ''     Minimum X (left)    = 10.000000\<newline>'',
           ''     Minimum Y (top)     = 20.000000\<newline>'',
           ''     Maximum X (right)   = 12.000000\<newline>'',
           ''     Maximum Y (bottom)  = 21.500000\<newline>'',
           ''     Minimum Z           = nan\<newline>'',
           ''     Maximum Z           = nan\<newline>'',
           ''     Default Z           = 0.000000\<newline>'',
           ''}\<newline>'',
           ''samples = 3\<newline>'',
           ''lines   = 1\<newline>'',
           ''bands   = 1\<newline>'',
           ''header offset = 0\<newline>'',
           ''map info = { Geographic Lat/Lon, 1.5, 1.5, 10.000000, 21.500000, 0.500000, -0.500000, D_MOON, units=Degrees}\<newline>'',
           ''file type = ENVI Standard\<newline>'',
           ''data type = 4\<newline>'',
           ''interleave = bsq\<newline>'',
           ''byte order = 0\<newline>'',
           ''\<newline>'']]\<rparr>)"
proof -
  have dt: "vw_to_envi_channel_type vw_float32 = Some 4" by simp
  have ne: "image_samples nan_image \<noteq> []"
    by (simp add: image_samples_nan_image)
  have dims: "cols nan_image = 3" "rows nan_image = 1" "planes nan_image = 1"
    by (simp_all add: nan_image_def)
  have fs: "files example_filesystem = Map.empty"
    by (simp add: example_filesystem_def)
  have "write_ENVI_header vw_float32 little_endian ''dem.hdr'' (Finite 0) nan_image example_georef
     example_filesystem =
     Returns
       (example_filesystem\<lparr>files := [''dem.hdr'' \<mapsto>
          ''ENVI\<newline>'' # provenance_text @
          [''   -- Proj.4 String: +proj=longlat\<newline>'',
           ''   \<newline>'',
           ''   Bounding box:\<newline>'',
           ''     Minimum X (left)    = 10.000000\<newline>'',
           ''     Minimum Y (top)     = 20.000000\<newline>'',
           ''     Maximum X (right)   = 12.000000\<newline>'',
           ''     Maximum Y (bottom)  = 21.500000\<newline>'',
           ''     Minimum Z           = nan\<newline>'',
           ''     Maximum Z           = nan\<newline>'',
           ''     Default Z           = 0.000000\<newline>'',
           ''}\<newline>'',
           ''samples = 3\<newline>'',
           ''lines   = 1\<newline>'',
           ''bands   = 1\<newline>'',
           ''header offset = 0\<newline>'',
           ''map info = { Geographic Lat/Lon, 1.5, 1.5, 10.000000, 21.500000, 0.500000, -0.500000, D_MOON, units=Degrees}\<newline>'',
           ''file type = ENVI Standard\<newline>'',
           ''data type = 4\<newline>'',
           ''interleave = bsq\<newline>'',
           ''byte order = 0\<newline>'',
           ''\<newline>'']]\<rparr>)"
    unfolding write_ENVI_header_returns [OF dt example_preconditions(2) ne]
      image_samples_nan_image scans_nan_image dims fs example_georef_values
      short_endian_check_eq
    by (simp add: fmt_f_examples fmt_fixed_examples fmt_d_examples)
  then show ?thesis
    by (simp add: image_samples_nan_image dle_def)
qed

text \<open>
  Claim C3. The \<^verbatim>\<open>map info\<close> line is the 32nd output. After the label of the
  coordinate system it holds, in this order, the fixed reference pixel 1.5 and 1.5, the
  least X and the greatest Y of the bounding box, the entries (0,0) and (1,1) of the
  transform as X and Y scale, the name of the datum and the fixed
  \<^verbatim>\<open>units=Degrees\<close>.
\<close>

theorem write_ENVI_header_map_info:
  assumes "vw_to_envi_channel_type channel_type \<noteq> None"
    and "can_open fs header_name"
    and "0 < cols img" and "0 < rows img" and "0 < planes img"
  shows "\<exists>fs' written.
     write_ENVI_header channel_type host header_name default_z_value img georef fs = Returns fs' \<and>
     files fs' header_name = Some written \<and>
     length written = 37 \<and>
     written ! 31 =
       ''map info = { Geographic Lat/Lon, 1.5, 1.5, '' @
       fmt_f (vec_x (bbox_min (georef_bounding_box georef (cols img) (rows img)))) @ '', '' @
       fmt_f (vec_y (bbox_max (georef_bounding_box georef (cols img) (rows img)))) @ '', '' @
       fmt_f (georef_transform georef 0 0) @ '', '' @
       fmt_f (georef_transform georef 1 1) @ '', '' @
       c_str (datum_name georef) @ '', units=Degrees}\<newline>''"
proof -
  from assms(1) obtain data_type where dt: "vw_to_envi_channel_type channel_type = Some data_type"
    by blast
  have ne: "image_samples img \<noteq> []"
    using assms(3-5) by (simp add: image_samples_Nil_iff)
  show ?thesis
    unfolding write_ENVI_header_returns [OF dt assms(2) ne]
    by (simp add: nth_append length_provenance_text)
qed

text \<open>
  With X scale 0.5, Y scale -0.5 and the bounding box from (10.0, 20.0) to (12.0, 21.5)
  the four numbers are 10.000000, 21.500000, 0.500000 and -0.500000.
\<close>

theorem write_ENVI_header_map_info_example:
  "\<exists>fs' written.
     write_ENVI_header vw_float32 little_endian ''dem.hdr'' (Finite 0) example_image example_georef
       example_filesystem = Returns fs' \<and>
     files fs' ''dem.hdr'' = Some written \<and>
     written ! 31 =
       ''map info = { Geographic Lat/Lon, 1.5, 1.5, 10.000000, 21.500000, 0.500000, -0.500000, D_MOON, units=Degrees}\<newline>''"
  using write_ENVI_header_map_info [OF example_preconditions(1,2,4,5,6), of little_endian "Finite 0" example_georef]
  unfolding example_georef_values fmt_f_examples fmt_fixed_examples
  by simp blast

text \<open>
  Claim C4, as the code has it. Whenever the call is made with a supported channel type,
  a destination that opens and a view that has samples, it returns and the file at the
  destination holds exactly these outputs in this order: the marker \<^verbatim>\<open>ENVI\<close>; the
  description block, made of the provenance text, the text of the georeference, the
  bounding box, the three Z values and the closing brace; then \<^verbatim>\<open>samples\<close>,
  \<^verbatim>\<open>lines\<close>, \<^verbatim>\<open>bands\<close>, \<^verbatim>\<open>header offset = 0\<close>, the \<^verbatim>\<open>map info\<close>
  line, \<^verbatim>\<open>file type = ENVI Standard\<close>, the code of the channel type, the constant
  \<^verbatim>\<open>interleave = bsq\<close>, the byte order and an empty line. The two Z extremes are
  the samples at the positions the two scans end on. No output depends on a test, so on
  these inputs none is left out.
\<close>

theorem write_ENVI_header_field_order:
  assumes "vw_to_envi_channel_type channel_type = Some data_type"
    and "can_open fs header_name"
    and "0 < cols img" and "0 < rows img" and "0 < planes img"
  shows "\<exists>fs'.
     write_ENVI_header channel_type host header_name default_z_value img georef fs = Returns fs' \<and>
     files fs' header_name = Some
       (''ENVI\<newline>'' # provenance_text @
        [''   '' @ c_str (georef_text georef) @ ''\<newline>'',
         ''   \<newline>'',
         ''   Bounding box:\<newline>'',
         ''     Minimum X (left)    = '' @
           fmt_f (vec_x (bbox_min (georef_bounding_box georef (cols img) (rows img)))) @ ''\<newline>'',
         ''     Minimum Y (top)     = '' @
           fmt_f (vec_y (bbox_min (georef_bounding_box georef (cols img) (rows img)))) @ ''\<newline>'',
         ''     Maximum X (right)   = '' @
           fmt_f (vec_x (bbox_max (georef_bounding_box georef (cols img) (rows img)))) @ ''\<newline>'',
         ''     Maximum Y (bottom)  = '' @
           fmt_f (vec_y (bbox_max (georef_bounding_box georef (cols img) (rows img)))) @ ''\<newline>'',
         ''     Minimum Z           = '' @
           fmt_f (image_samples img ! min_element dless (image_samples img)) @ ''\<newline>'',
         ''     Maximum Z           = '' @
           fmt_f (image_samples img ! max_element dless (image_samples img)) @ ''\<newline>'',
         ''     Default Z           = '' @ fmt_f default_z_value @ ''\<newline>'',
         ''}\<newline>'',
         ''samples = '' @ fmt_d (int (cols img)) @ ''\<newline>'',
         ''lines   = '' @ fmt_d (int (rows img)) @ ''\<newline>'',
         ''bands   = '' @ fmt_d (int (planes img)) @ ''\<newline>'',
         ''header offset = 0\<newline>'',
         ''map info = { Geographic Lat/Lon, 1.5, 1.5, '' @
           fmt_f (vec_x (bbox_min (georef_bounding_box georef (cols img) (rows img)))) @ '', '' @
           fmt_f (vec_y (bbox_max (georef_bounding_box georef (cols img) (rows img)))) @ '', '' @
           fmt_f (georef_transform georef 0 0) @ '', '' @
           fmt_f (georef_transform georef 1 1) @ '', '' @
           c_str (datum_name georef) @ '', units=Degrees}\<newline>'',
         ''file type = ENVI Standard\<newline>'',
         ''data type = '' @ fmt_d data_type @ ''\<newline>'',
         ''interleave = bsq\<newline>'',
         ''byte order = '' @ fmt_d (short_endian_check host) @ ''\<newline>'',
         ''\<newline>''])"
proof -
  have ne: "image_samples img \<noteq> []"
    using assms(3-5) by (simp add: image_samples_Nil_iff)
  show ?thesis
    unfolding write_ENVI_header_returns [OF assms(1,2) ne] by simp
qed

text \<open>
  The whole header of the 4 by 3 view of 7.0 with the georeference above, written as a
  32-bit float image on a little-endian host.
\<close>

theorem write_ENVI_header_field_order_example:
  "\<exists>fs'.
     write_ENVI_header vw_float32 little_endian ''dem.hdr'' (Finite 0) example_image example_georef
       example_filesystem = Returns fs' \<and>
     files fs' ''dem.hdr'' = Some
       (''ENVI\<newline>'' # provenance_text @
        [''   -- Proj.4 String: +proj=longlat\<newline>'',
         ''   \<newline>'',
         ''   Bounding box:\<newline>'',
         ''     Minimum X (left)    = 10.000000\<newline>'',
         ''     Minimum Y (top)     = 20.000000\<newline>'',
         ''     Maximum X (right)   = 12.000000\<newline>'',
         ''     Maximum Y (bottom)  = 21.500000\<newline>'',
         ''     Minimum Z           = 7.000000\<newline>'',
         ''     Maximum Z           = 7.000000\<newline>'',
         ''     Default Z           = 0.000000\<newline>'',
         ''}\<newline>'',
         ''samples = 4\<newline>'',
         ''lines   = 3\<newline>'',
         ''bands   = 1\<newline>'',
         ''header offset = 0\<newline>'',
         ''map info = { Geographic Lat/Lon, 1.5, 1.5, 10.000000, 21.500000, 0.500000, -0.500000, D_MOON, units=Degrees}\<newline>'',
         ''file type = ENVI Standard\<newline>'',
         ''data type = 4\<newline>'',
         ''interleave = bsq\<newline>'',
         ''byte order = 0\<newline>'',
         ''\<newline>''])"
proof -
  have dt: "vw_to_envi_channel_type vw_float32 = Some 4" by simp
  have dims: "cols example_image = 4" "rows example_image = 3" "planes example_image = 1"
    by (simp_all add: example_image_def)
  have ne: "image_samples example_image \<noteq> []"
    by (simp add: image_samples_example_image)
  have range: "image_samples example_image ! min_element dless (image_samples example_image) = Finite 7"
    "image_samples example_image ! max_element dless (image_samples example_image) = Finite 7"
    using nth_mem [OF min_element_in_range [OF ne, of dless]]
      nth_mem [OF max_element_in_range [OF ne, of dless]]
    by (simp_all add: image_samples_example_image)
  from write_ENVI_header_field_order [OF dt example_preconditions(2,4,5,6),
      of little_endian "Finite 0" example_georef]
  show ?thesis
    unfolding dims range example_georef_values fmt_f_examples fmt_fixed_examples short_endian_check_eq
    by (simp add: fmt_d_examples fmt_f_examples fmt_fixed_examples)
qed

text \<open>
  The claim as the specification states it, every field for every input, fails for a
  view of no planes: the call ends in undefined behaviour after 17 of the 37 outputs, and
  none of the fields from the bounding box on has been written.
\<close>

theorem write_ENVI_header_zero_planes_incomplete:
  "planes (example_image\<lparr>planes := 0\<rparr>) = 0 \<and>
   write_ENVI_header vw_float32 little_endian ''dem.hdr'' (Finite 0)
     (example_image\<lparr>planes := 0\<rparr>) example_georef example_filesystem =
     Undefined End_iterator_dereferenced
       (example_filesystem\<lparr>files := [''dem.hdr'' \<mapsto>
              ''ENVI\<newline>'' # provenance_text @ [''   -- Proj.4 String: +proj=longlat\<newline>'']],
           open_streams := [''dem.hdr'']\<rparr>) \<and>
   length (''ENVI\<newline>'' # provenance_text @ [''   -- Proj.4 String: +proj=longlat\<newline>'']) = 17"
proof -
  have dt: "vw_to_envi_channel_type vw_float32 = Some 4" by simp
  have none: "image_samples (example_image\<lparr>planes := 0\<rparr>) = []"
    by (simp add: image_samples_Nil_iff)
  have fs: "files example_filesystem = Map.empty" "open_streams example_filesystem = []"
    by (simp_all add: example_filesystem_def)
  show ?thesis
    unfolding write_ENVI_header_end_iterator [OF dt example_preconditions(2) none]
      example_georef_values fs
    by (simp add: length_provenance_text)
qed

text \<open>
  Claim C5. The \<^verbatim>\<open>byte order\<close> line is the 36th output. Its value is the result
  of the probe on a 16-bit \<^verbatim>\<open>short\<close> holding 1, made during the call: 0 on a
  little-endian host and 1 on a big-endian host, whatever the view and the georeference
  are.
\<close>

theorem write_ENVI_header_byte_order:
  assumes "vw_to_envi_channel_type channel_type \<noteq> None"
    and "can_open fs header_name"
    and "0 < cols img" and "0 < rows img" and "0 < planes img"
  shows "\<exists>fs' written.
     write_ENVI_header channel_type host header_name default_z_value img georef fs = Returns fs' \<and>
     files fs' header_name = Some written \<and>
     length written = 37 \<and>
     written ! 35 = ''byte order = '' @ fmt_d (short_endian_check host) @ ''\<newline>'' \<and>
     written ! 35 =
       (case host of little_endian \<Rightarrow> ''byte order = 0\<newline>'' | big_endian \<Rightarrow> ''byte order = 1\<newline>'')"
proof -
  from assms(1) obtain data_type where dt: "vw_to_envi_channel_type channel_type = Some data_type"
    by blast
  have ne: "image_samples img \<noteq> []"
    using assms(3-5) by (simp add: image_samples_Nil_iff)
  have probe: "''byte order = '' @ fmt_d (short_endian_check host) @ ''\<newline>'' =
      (case host of little_endian \<Rightarrow> ''byte order = 0\<newline>'' | big_endian \<Rightarrow> ''byte order = 1\<newline>'')"
    by (cases host) (simp_all add: short_endian_check_eq fmt_d_examples)
  show ?thesis
    unfolding write_ENVI_header_returns [OF dt assms(2) ne]
    using probe by (simp add: nth_append length_provenance_text)
qed

text \<open>
  The same view and georeference on a host of each byte order.
\<close>

theorem write_ENVI_header_byte_order_example:
  "(\<exists>fs' written.
     write_ENVI_header vw_float32 little_endian ''dem.hdr'' (Finite 0) example_image example_georef
       example_filesystem = Returns fs' \<and>
     files fs' ''dem.hdr'' = Some written \<and> written ! 35 = ''byte order = 0\<newline>'') \<and>
   (\<exists>fs' written.
     write_ENVI_header vw_float32 big_endian ''dem.hdr'' (Finite 0) example_image example_georef
       example_filesystem = Returns fs' \<and>
     files fs' ''dem.hdr'' = Some written \<and> written ! 35 = ''byte order = 1\<newline>'')"
  using write_ENVI_header_byte_order [OF example_preconditions(1,2,4,5,6), of little_endian "Finite 0" example_georef]
    write_ENVI_header_byte_order [OF example_preconditions(1,2,4,5,6), of big_endian "Finite 0" example_georef]
  by simp blast

text \<open>
  Claim C6, as the code has it. For a view without samples (no columns, no rows or no
  planes), with a supported channel type and a destination that opens, the call makes no
  test and raises no error. It opens the destination, which empties it, writes the
  marker, the provenance text and the text of the georeference, and then reads through
  the iterator \<^verbatim>\<open>std::min_element\<close> returned for the empty range, which is
  \<^verbatim>\<open>end()\<close>: the behaviour is undefined from there, with the stream still open
  and no numeric field written.
\<close>

theorem write_ENVI_header_zero_samples:
  assumes "vw_to_envi_channel_type channel_type \<noteq> None"
    and "can_open fs header_name"
    and "cols img = 0 \<or> rows img = 0 \<or> planes img = 0"
  shows "write_ENVI_header channel_type host header_name default_z_value img georef fs =
       Undefined End_iterator_dereferenced
         (fs\<lparr>files := (files fs)(header_name \<mapsto>
                ''ENVI\<newline>'' # provenance_text @
                [''   '' @ c_str (georef_text georef) @ ''\<newline>'']),
             open_streams := header_name # open_streams fs\<rparr>) \<and>
     \<not> explicit_error
       (write_ENVI_header channel_type host header_name default_z_value img georef fs)"
proof -
  from assms(1) obtain data_type where dt: "vw_to_envi_channel_type channel_type = Some data_type"
    by blast
  have none: "image_samples img = []"
    using assms(3) by (simp add: image_samples_Nil_iff)
  show ?thesis
    unfolding write_ENVI_header_end_iterator [OF dt assms(2) none]
    by (simp add: explicit_error_def)
qed

text \<open>
  A view of 4 columns and no rows, written over an older header.
\<close>

theorem write_ENVI_header_zero_samples_example:
  "rows (example_image\<lparr>rows := 0\<rparr>) = 0 \<and>
   write_ENVI_header vw_float32 little_endian ''dem.hdr'' (Finite 0) (example_image\<lparr>rows := 0\<rparr>)
     example_georef used_filesystem =
     Undefined End_iterator_dereferenced
       (used_filesystem\<lparr>files := (files used_filesystem)(''dem.hdr'' \<mapsto>
              ''ENVI\<newline>'' # provenance_text @ [''   -- Proj.4 String: +proj=longlat\<newline>'']),
           open_streams := [''dem.hdr'']\<rparr>)"
proof -
  have 3: "cols (example_image\<lparr>rows := 0\<rparr>) = 0 \<or> rows (example_image\<lparr>rows := 0\<rparr>) = 0 \<or>
      planes (example_image\<lparr>rows := 0\<rparr>) = 0"
    by simp
  have streams: "open_streams used_filesystem = []"
    by (simp add: used_filesystem_def)
  from write_ENVI_header_zero_samples [OF example_preconditions(1,3) 3,
      of little_endian "Finite 0" example_georef]
  show ?thesis
    unfolding example_georef_values streams by simp
qed

text \<open>
  The claim as the specification states it, an explicit error for a view without
  samples, fails for a view of no columns and 3 rows: the outcome is undefined behaviour,
  not an error.
\<close>

theorem write_ENVI_header_zero_columns_undefined:
  "cols empty_image = 0 \<and>
   vw_to_envi_channel_type vw_float32 = Some 4 \<and>
   can_open example_filesystem ''dem.hdr'' \<and>
   write_ENVI_header vw_float32 little_endian ''dem.hdr'' (Finite 0) empty_image example_georef
     example_filesystem =
     Undefined End_iterator_dereferenced
       (example_filesystem\<lparr>files := [''dem.hdr'' \<mapsto>
              ''ENVI\<newline>'' # provenance_text @ [''   -- Proj.4 String: +proj=longlat\<newline>'']],
           open_streams := [''dem.hdr'']\<rparr>) \<and>
   \<not> explicit_error
     (write_ENVI_header vw_float32 little_endian ''dem.hdr'' (Finite 0) empty_image example_georef
        example_filesystem)"
proof -
  have dt: "vw_to_envi_channel_type vw_float32 = Some 4" by simp
  have none: "image_samples empty_image = []"
    by (simp add: image_samples_Nil_iff empty_image_def)
  have fs: "files example_filesystem = Map.empty" "open_streams example_filesystem = []"
    by (simp_all add: example_filesystem_def)
  show ?thesis
    unfolding write_ENVI_header_end_iterator [OF dt example_preconditions(2) none]
      example_georef_values fs
    by (simp add: explicit_error_def empty_image_def example_preconditions(2))
qed

text \<open>
  Claim C7. The bytes the call leaves at the destination depend on the arguments and
  on the byte order of the host only. Two calls with the same arguments that return,
  from any two states of the files, leave the same bytes there, and a second call made
  after the first changes nothing.
\<close>

theorem write_ENVI_header_deterministic:
  assumes "write_ENVI_header channel_type host header_name default_z_value img georef fs1 = Returns fs1'"
    and "write_ENVI_header channel_type host header_name default_z_value img georef fs2 = Returns fs2'"
  shows "file_bytes fs1' header_name = file_bytes fs2' header_name \<and>
     file_bytes fs1' header_name \<noteq> None \<and>
     write_ENVI_header channel_type host header_name default_z_value img georef fs1' = Returns fs1'"
proof -
  from write_ENVI_header_Returns_D [OF assms(1)]
  obtain data_type where dt: "vw_to_envi_channel_type channel_type = Some data_type"
    and open1: "can_open fs1 header_name" and ne: "image_samples img \<noteq> []"
    by blast
  have open2: "can_open fs2 header_name"
    using write_ENVI_header_Returns_D(2) [OF assms(2)] .
  have fs1': "fs1' = fs1\<lparr>files := (files fs1)(header_name \<mapsto> the (files fs1' header_name))\<rparr>"
    and some1: "files fs1' header_name \<noteq> None"
    using assms(1) unfolding write_ENVI_header_returns [OF dt open1 ne] by auto
  have same: "files fs2' header_name = files fs1' header_name"
    using assms unfolding write_ENVI_header_returns [OF dt open1 ne]
      write_ENVI_header_returns [OF dt open2 ne] by auto
  have open1': "can_open fs1' header_name"
    using open1 by (subst fs1') simp
  have again: "write_ENVI_header channel_type host header_name default_z_value img georef fs1' =
      Returns fs1'"
    using assms(1) unfolding write_ENVI_header_returns [OF dt open1 ne]
      write_ENVI_header_returns [OF dt open1' ne] by auto
  show ?thesis
    using same some1 again by (simp add: file_bytes_def)
qed

text \<open>
  The same call from a state without the file and from a state with an older header
  at the destination.
\<close>

theorem write_ENVI_header_deterministic_example:
  "\<exists>fs1' fs2'.
     write_ENVI_header vw_float32 little_endian ''dem.hdr'' (Finite 0) example_image example_georef
       example_filesystem = Returns fs1' \<and>
     write_ENVI_header vw_float32 little_endian ''dem.hdr'' (Finite 0) example_image example_georef
       used_filesystem = Returns fs2' \<and>
     file_bytes example_filesystem ''dem.hdr'' = None \<and>
     file_bytes used_filesystem ''dem.hdr'' = Some ''ENVI\<newline>samples = 1\<newline>'' \<and>
     file_bytes fs1' ''dem.hdr'' = file_bytes fs2' ''dem.hdr'' \<and>
     file_bytes fs1' ''dem.hdr'' \<noteq> None \<and>
     write_ENVI_header vw_float32 little_endian ''dem.hdr'' (Finite 0) example_image example_georef
       fs1' = Returns fs1'"
proof -
  have dt: "vw_to_envi_channel_type vw_float32 = Some 4" by simp
  have ne: "image_samples example_image \<noteq> []"
    by (simp add: image_samples_Nil_iff example_image_def)
  obtain fs1' where 1: "write_ENVI_header vw_float32 little_endian ''dem.hdr'' (Finite 0) example_image
      example_georef example_filesystem = Returns fs1'"
    unfolding write_ENVI_header_returns [OF dt example_preconditions(2) ne] by blast
  obtain fs2' where 2: "write_ENVI_header vw_float32 little_endian ''dem.hdr'' (Finite 0) example_image
      example_georef used_filesystem = Returns fs2'"
    unfolding write_ENVI_header_returns [OF dt example_preconditions(3) ne] by blast
  have before: "file_bytes example_filesystem ''dem.hdr'' = None"
    "file_bytes used_filesystem ''dem.hdr'' = Some ''ENVI\<newline>samples = 1\<newline>''"
    by (simp_all add: file_bytes_def example_filesystem_def used_filesystem_def)
  from write_ENVI_header_deterministic [OF 1 2] 1 2 before
  show ?thesis by blast
qed

text \<open>
  Claim C8. For a channel type outside the seven of the table the resolver has no
  value, so the instantiation of \<^verbatim>\<open>write_ENVI_header\<close> is ill-formed: it is
  rejected when the template is instantiated, for every argument and every state of the
  files. No call takes place, so no stream is opened and no file is made or changed.
\<close>

theorem write_ENVI_header_unsupported_channel:
  assumes "channel_type \<notin>
      {vw_uint8, vw_int16, vw_int32, vw_float32, vw_float64, vw_uint16, vw_uint32}"
  shows "vw_to_envi_channel_type channel_type = None \<and>
     write_ENVI_header channel_type host header_name default_z_value img georef fs = Ill_formed"
proof -
  have "vw_to_envi_channel_type channel_type = None"
    by (rule iffD2 [OF vw_to_envi_channel_type_None_iff assms])
  then show ?thesis
    by (simp add: write_ENVI_header_ill_formed)
qed

text \<open>
  A view of signed 8-bit channels, and one whose channel type is not a fundamental
  type.
\<close>

theorem write_ENVI_header_unsupported_channel_example:
  "vw_int8 \<notin> {vw_uint8, vw_int16, vw_int32, vw_float32, vw_float64, vw_uint16, vw_uint32} \<and>
   write_ENVI_header vw_int8 little_endian ''dem.hdr'' (Finite 0) example_image example_georef
     example_filesystem = Ill_formed \<and>
   write_ENVI_header (other_type ''vw::PixelRGB<float>'') little_endian ''dem.hdr'' (Finite 0) example_image
     example_georef example_filesystem = Ill_formed"
  using write_ENVI_header_unsupported_channel [of vw_int8 little_endian "''dem.hdr''" "Finite 0"
      example_image example_georef example_filesystem]
    write_ENVI_header_unsupported_channel [of "other_type ''vw::PixelRGB<float>''" little_endian
      "''dem.hdr''" "Finite 0" example_image example_georef example_filesystem]
  by simp




text \<open>
  Claim C10. The bounding box is computed once, from the georeference and the numbers
  of columns and rows of the view. The numbers printed as \<^verbatim>\<open>Minimum X (left)\<close>
  and \<^verbatim>\<open>Maximum Y (bottom)\<close> in the description block are the same texts as the
  third and fourth number of the \<^verbatim>\<open>map info\<close> line.
\<close>

theorem write_ENVI_header_one_bounding_box:
  assumes "vw_to_envi_channel_type channel_type \<noteq> None"
    and "can_open fs header_name"
    and "0 < cols img" and "0 < rows img" and "0 < planes img"
  shows "\<exists>fs' written min_x max_y.
     write_ENVI_header channel_type host header_name default_z_value img georef fs = Returns fs' \<and>
     files fs' header_name = Some written \<and>
     min_x = fmt_f (vec_x (bbox_min (georef_bounding_box georef (cols img) (rows img)))) \<and>
     max_y = fmt_f (vec_y (bbox_max (georef_bounding_box georef (cols img) (rows img)))) \<and>
     written ! 19 = ''     Minimum X (left)    = '' @ min_x @ ''\<newline>'' \<and>
     written ! 22 = ''     Maximum Y (bottom)  = '' @ max_y @ ''\<newline>'' \<and>
     written ! 31 =
       ''map info = { Geographic Lat/Lon, 1.5, 1.5, '' @ min_x @ '', '' @ max_y @ '', '' @
       fmt_f (georef_transform georef 0 0) @ '', '' @
       fmt_f (georef_transform georef 1 1) @ '', '' @
       c_str (datum_name georef) @ '', units=Degrees}\<newline>''"
proof -
  from assms(1) obtain data_type where dt: "vw_to_envi_channel_type channel_type = Some data_type"
    by blast
  have ne: "image_samples img \<noteq> []"
    using assms(3-5) by (simp add: image_samples_Nil_iff)
  show ?thesis
    unfolding write_ENVI_header_returns [OF dt assms(2) ne]
    by (simp add: nth_append length_provenance_text)
qed

text \<open>
  Both places show 10.000000 and 21.500000 for the bounding box from (10.0, 20.0) to
  (12.0, 21.5).
\<close>

theorem write_ENVI_header_one_bounding_box_example:
  "\<exists>fs' written.
     write_ENVI_header vw_float32 little_endian ''dem.hdr'' (Finite 0) example_image example_georef
       example_filesystem = Returns fs' \<and>
     files fs' ''dem.hdr'' = Some written \<and>
     written ! 19 = ''     Minimum X (left)    = 10.000000\<newline>'' \<and>
     written ! 22 = ''     Maximum Y (bottom)  = 21.500000\<newline>'' \<and>
     written ! 31 =
       ''map info = { Geographic Lat/Lon, 1.5, 1.5, 10.000000, 21.500000, 0.500000, -0.500000, D_MOON, units=Degrees}\<newline>''"
  using write_ENVI_header_one_bounding_box [OF example_preconditions(1,2,4,5,6), of little_endian "Finite 0" example_georef]
  unfolding example_georef_values fmt_f_examples fmt_fixed_examples
  by simp

end
